theory Spec2Isabelle
  imports Main
begin

section \<open>Security findings and the verdict (aur\_security\_scanner.py)\<close>

text \<open>
  Texts are lists of characters. Python's regular expression classes are taken on the
  ASCII range, where \<^verbatim>\<open>\s\<close> is the ten characters listed in \<open>is_space\<close> and
  \<^verbatim>\<open>\w\<close> is a letter, a digit or the underscore.
\<close>

datatype RiskLevel = LOW | MEDIUM | HIGH | CRITICAL

record SecurityFinding =
  risk_level :: RiskLevel
  category :: string
  description :: string
  location :: "string option"
  recommendation :: "string option"
  matched_content :: "string option"

definition count_risk :: "RiskLevel \<Rightarrow> SecurityFinding list \<Rightarrow> nat" where
  "count_risk r fs = length (filter (\<lambda>f. risk_level f = r) fs)"

text \<open>\<^verbatim>\<open>AURSecurityScanner._assess_overall_security\<close>, on the findings list of the scanner.\<close>

definition assess_overall_security :: "SecurityFinding list \<Rightarrow> bool" where
  "assess_overall_security fs =
     (let critical_count = count_risk CRITICAL fs;
          high_count = count_risk HIGH fs;
          medium_count = count_risk MEDIUM fs
      in if critical_count > 0 then False
         else if high_count > 2 then False
         else if medium_count > 5 then False
         else True)"

subsection \<open>Package name validation\<close>

definition code_point :: "char \<Rightarrow> nat" where
  "code_point c = of_char c"

definition is_alnum :: "char \<Rightarrow> bool" where
  "is_alnum c =
     ((97 \<le> code_point c \<and> code_point c \<le> 122) \<or> (65 \<le> code_point c \<and> code_point c \<le> 90)
      \<or> (48 \<le> code_point c \<and> code_point c \<le> 57))"

text \<open>The character class \<^verbatim>\<open>[a-zA-Z0-9._+-]\<close>.\<close>

definition name_char :: "char \<Rightarrow> bool" where
  "name_char c = (is_alnum c \<or> c = CHR ''.'' \<or> c = CHR ''_'' \<or> c = CHR ''+'' \<or> c = CHR ''-'')"

text \<open>
  \<^verbatim>\<open>re.match(r'^[a-zA-Z0-9._+-]+$', package_name)\<close>. The class matches greedily from
  the start and gives characters back; Python's \<^verbatim>\<open>$\<close> matches at the end of the
  string and also just before a line feed that is the last character.
\<close>

definition re_match_name :: "string \<Rightarrow> bool" where
  "re_match_name s =
     (let run = takeWhile name_char s; rest = dropWhile name_char s
      in run \<noteq> [] \<and> (rest = [] \<or> rest = [CHR 0x0A]))"

definition validate_package_name :: "string \<Rightarrow> bool" where
  "validate_package_name package_name =
     (if \<not> re_match_name package_name then False
      else if length package_name > 255 then False
      else True)"

subsection \<open>Paths and the archive check\<close>

definition startswith :: "string \<Rightarrow> string \<Rightarrow> bool" where
  "startswith s p = (take (length p) s = p)"

text \<open>\<^verbatim>\<open>str.split(sep)\<close> for a separator of one character.\<close>

fun split_sep :: "char \<Rightarrow> string \<Rightarrow> string list" where
  "split_sep sep [] = [[]]"
| "split_sep sep (c # cs) =
     (if c = sep then [] # split_sep sep cs
      else (case split_sep sep cs of [] \<Rightarrow> [[c]] | x # xs \<Rightarrow> (c # x) # xs))"

text \<open>
  \<^verbatim>\<open>Path.resolve()\<close> on an absolute path, in a directory tree without symbolic links
  (the extraction root is a fresh temporary directory): empty and \<^verbatim>\<open>.\<close> components
  are dropped, \<^verbatim>\<open>..\<close> removes the component before it and stays at the root.
\<close>

fun normalize_parts :: "string list \<Rightarrow> string list \<Rightarrow> string list" where
  "normalize_parts acc [] = rev acc"
| "normalize_parts acc (c # cs) =
     (if c = [] \<or> c = ''.'' then normalize_parts acc cs
      else if c = ''..'' then normalize_parts (tl acc) cs
      else normalize_parts (c # acc) cs)"

definition join_parts :: "string list \<Rightarrow> string" where
  "join_parts ps = (if ps = [] then ''/'' else concat (map (\<lambda>p. CHR ''/'' # p) ps))"

definition resolve_parts :: "string \<Rightarrow> string list" where
  "resolve_parts p = normalize_parts [] (split_sep CHR ''/'' p)"

definition resolve_path :: "string \<Rightarrow> string" where
  "resolve_path p = join_parts (resolve_parts p)"

text \<open>The operator \<^verbatim>\<open>/\<close> of pathlib: an absolute right operand replaces the left one.\<close>

definition path_join :: "string \<Rightarrow> string \<Rightarrow> string" where
  "path_join a b = (if startswith b ''/'' then b else a @ ''/'' @ b)"

record tar_member =
  member_name :: string
  member_size :: nat

datatype log_record = LargeFileInArchive string nat

text \<open>The condition under which \<^verbatim>\<open>_safe_extract_tar\<close> lets a member pass.\<close>

definition member_path_ok :: "string \<Rightarrow> tar_member \<Rightarrow> bool" where
  "member_path_ok extract_to member =
     startswith (resolve_path (path_join extract_to (member_name member))) (resolve_path extract_to)"

text \<open>
  The loop over \<^verbatim>\<open>tar.getmembers()\<close>: the first member that fails the check raises
  \<^verbatim>\<open>AURSecurityError\<close> (the left injection, with the message); a member above
  100 MiB is logged as a warning.
\<close>

fun check_members :: "string \<Rightarrow> tar_member list \<Rightarrow> log_record list \<Rightarrow> string + log_record list" where
  "check_members extract_to [] lg = Inr lg"
| "check_members extract_to (member # members) lg =
     (if \<not> member_path_ok extract_to member
      then Inl (''Attempted path traversal: '' @ member_name member)
      else check_members extract_to members
             (if member_size member > 100 * 1024 * 1024
              then lg @ [LargeFileInArchive (member_name member) (member_size member)]
              else lg))"

subsection \<open>The scan of one package\<close>

text \<open>
  What the scanner gets from outside is a record of functions: the temporary directory,
  the network, the tarfile library (reading the member list, and \<^verbatim>\<open>extractall\<close> with the
  data filter, which yields the directory tree \<open>'fs\<close>), the file system, and the three
  analysis steps that follow the check for the PKGBUILD file. A left injection is the text
  of the exception raised.
\<close>

record ('b, 'fs) scan_env =
  mkdtemp :: "string \<Rightarrow> string + string"
  fetch_url :: "string \<Rightarrow> string + 'b"
  tar_getmembers :: "'b \<Rightarrow> string + tar_member list"
  extractall :: "string \<Rightarrow> tar_member list \<Rightarrow> string + 'fs"
  path_exists :: "'fs \<Rightarrow> string \<Rightarrow> bool"
  analyze :: "'fs \<Rightarrow> string \<Rightarrow> SecurityFinding list"
  check_package_metadata :: "string \<Rightarrow> SecurityFinding list"
  analyze_additional_files :: "'fs \<Rightarrow> string \<Rightarrow> string + SecurityFinding list"

definition safe_extract_tar ::
  "('b, 'fs) scan_env \<Rightarrow> 'b \<Rightarrow> string \<Rightarrow> string + (log_record list \<times> 'fs)" where
  "safe_extract_tar env archive extract_to =
     (case tar_getmembers env archive of
        Inl e \<Rightarrow> Inl (''Invalid tar archive: '' @ e)
      | Inr members \<Rightarrow>
          (case check_members extract_to members [] of
             Inl e \<Rightarrow> Inl e
           | Inr lg \<Rightarrow>
               (case extractall env extract_to members of
                  Inl e \<Rightarrow> Inl (''Invalid tar archive: '' @ e)
                | Inr fs \<Rightarrow> Inr (lg, fs))))"

definition download_and_extract_package ::
  "('b, 'fs) scan_env \<Rightarrow> string \<Rightarrow> string \<Rightarrow> string + (log_record list \<times> 'fs \<times> string)" where
  "download_and_extract_package env temp_dir package_name =
     (let url = ''https://aur.archlinux.org/cgit/aur.git/snapshot/'' @ package_name @ ''.tar.gz''
      in case fetch_url env url of
           Inl e \<Rightarrow> Inl e
         | Inr archive_data \<Rightarrow>
             (let package_dir = path_join temp_dir package_name
              in case safe_extract_tar env archive_data temp_dir of
                   Inl e \<Rightarrow> Inl e
                 | Inr (lg, fs) \<Rightarrow>
                     if \<not> path_exists env fs package_dir
                     then Inl (''Package directory '' @ package_name @ '' not found after extraction'')
                     else Inr (lg, fs, package_dir)))"

definition invalid_name_finding :: "string \<Rightarrow> SecurityFinding" where
  "invalid_name_finding package_name =
     \<lparr>risk_level = CRITICAL, category = ''Invalid Package Name'',
      description = ''Package name '' @ [CHR 0x27] @ package_name @ [CHR 0x27] @ '' contains invalid characters'',
      location = None,
      recommendation = Some ''Use only alphanumeric characters, hyphens, and underscores'',
      matched_content = None\<rparr>"

definition missing_pkgbuild_finding :: SecurityFinding where
  "missing_pkgbuild_finding =
     \<lparr>risk_level = CRITICAL, category = ''Missing PKGBUILD'',
      description = ''PKGBUILD file not found in package'',
      location = None,
      recommendation = Some ''Package structure is invalid - do not install'',
      matched_content = None\<rparr>"

definition scanner_error_finding :: "string \<Rightarrow> SecurityFinding" where
  "scanner_error_finding e =
     \<lparr>risk_level = CRITICAL, category = ''Security Scanner Error'', description = e,
      location = None, recommendation = Some ''Cannot safely analyze package'',
      matched_content = None\<rparr>"

definition unexpected_error_finding :: "string \<Rightarrow> SecurityFinding" where
  "unexpected_error_finding e =
     \<lparr>risk_level = CRITICAL, category = ''Unexpected Error'',
      description = ''Scanner encountered unexpected error: '' @ e,
      location = None, recommendation = Some ''Review package manually or report issue'',
      matched_content = None\<rparr>"

text \<open>
  \<^verbatim>\<open>AURSecurityScanner.scan_package\<close>. The findings list starts empty after the name
  check; an exception of a later step ends the scan with one more CRITICAL finding. The
  source also returns early when the package directory is a false value, which a path
  never is.
\<close>

definition scan_package :: "('b, 'fs) scan_env \<Rightarrow> string \<Rightarrow> bool \<times> SecurityFinding list" where
  "scan_package env package_name =
     (if \<not> validate_package_name package_name
      then (False, [invalid_name_finding package_name])
      else
        (let findings = [] in
         case mkdtemp env (''aur-scan-'' @ package_name @ ''-'') of
           Inl e \<Rightarrow> (False, findings @ [unexpected_error_finding e])
         | Inr temp_dir \<Rightarrow>
             (case download_and_extract_package env temp_dir package_name of
                Inl e \<Rightarrow> (False, findings @ [scanner_error_finding e])
              | Inr (lg, fs, package_dir) \<Rightarrow>
                  (let pkgbuild_path = path_join package_dir ''PKGBUILD'' in
                   if \<not> path_exists env fs pkgbuild_path
                   then (False, findings @ [missing_pkgbuild_finding])
                   else
                     (let findings = findings @ analyze env fs pkgbuild_path;
                          findings = findings @ check_package_metadata env package_name
                      in case analyze_additional_files env fs package_dir of
                           Inl e \<Rightarrow> (False, findings @ [unexpected_error_finding e])
                         | Inr file_findings \<Rightarrow>
                             (let findings = findings @ file_findings
                              in (assess_overall_security findings, findings)))))))"

subsection \<open>Checks of the PKGBUILD analyzer\<close>

definition is_space :: "char \<Rightarrow> bool" where
  "is_space c = ((9 \<le> code_point c \<and> code_point c \<le> 13) \<or> (28 \<le> code_point c \<and> code_point c \<le> 32))"

text \<open>
  The pattern \<^verbatim>\<open>\s*field\s*=\<close> at the start of the text \<open>s\<close>. A field name starts
  with a letter and \<^verbatim>\<open>=\<close> is no space, so each \<^verbatim>\<open>\s*\<close> takes all the spaces there are.
\<close>

definition field_at :: "string \<Rightarrow> string \<Rightarrow> bool" where
  "field_at field s =
     (let s1 = dropWhile is_space s
      in startswith s1 field \<and>
         (case dropWhile is_space (drop (length field) s1) of
            [] \<Rightarrow> False
          | c # _ \<Rightarrow> c = CHR ''=''))"

text \<open>The texts that start right after a line feed: where \<^verbatim>\<open>^\<close> matches under MULTILINE.\<close>

fun line_suffixes :: "string \<Rightarrow> string list" where
  "line_suffixes [] = []"
| "line_suffixes (c # cs) = (if c = CHR 0x0A then cs # line_suffixes cs else line_suffixes cs)"

text \<open>\<^verbatim>\<open>re.search(rf'^\s*{field}\s*=', content, re.MULTILINE)\<close> as a truth value.\<close>

definition re_search_field :: "string \<Rightarrow> string \<Rightarrow> bool" where
  "re_search_field field content = list_ex (field_at field) (content # line_suffixes content)"

text \<open>\<^verbatim>\<open>sep.join(xs)\<close>.\<close>

fun str_join :: "string \<Rightarrow> string list \<Rightarrow> string" where
  "str_join sep [] = []"
| "str_join sep [x] = x"
| "str_join sep (x # y # ys) = x @ sep @ str_join sep (y # ys)"

definition checksum_fields :: "string list" where
  "checksum_fields = [''md5sums'', ''sha1sums'', ''sha256sums'', ''sha512sums'']"

definition no_integrity_finding :: SecurityFinding where
  "no_integrity_finding =
     \<lparr>risk_level = HIGH, category = ''No Integrity Verification'',
      description = ''Package does not verify download integrity with checksums'',
      location = None,
      recommendation = Some ''Add SHA256 or SHA512 checksums to PKGBUILD'',
      matched_content = None\<rparr>"

definition weak_hash_finding :: "string list \<Rightarrow> SecurityFinding" where
  "weak_hash_finding weak_hashes =
     \<lparr>risk_level = MEDIUM, category = ''Weak Hash Algorithm'',
      description = ''Using weak hash algorithms: '' @ str_join '', '' weak_hashes,
      location = None,
      recommendation = Some ''Use SHA256 or SHA512 for better security'',
      matched_content = None\<rparr>"

text \<open>
  \<^verbatim>\<open>PKGBUILDAnalyzer._check_integrity_verification\<close>: the findings of the analyzer
  before the check, and after it.
\<close>

definition check_integrity_verification :: "string \<Rightarrow> SecurityFinding list \<Rightarrow> SecurityFinding list" where
  "check_integrity_verification content findings =
     (let found_checksums = filter (\<lambda>field. re_search_field field content) checksum_fields
      in if found_checksums = [] then findings @ [no_integrity_finding]
         else
           (let weak_hashes = filter (\<lambda>h. h \<in> set [''md5sums'', ''sha1sums'']) found_checksums
            in if weak_hashes \<noteq> [] then findings @ [weak_hash_finding weak_hashes]
               else findings))"

definition TRUSTED_DOMAINS :: "string list" where
  "TRUSTED_DOMAINS =
     [''github.com'', ''gitlab.com'', ''bitbucket.org'', ''sourceforge.net'',
      ''archive.org'', ''gnu.org'', ''kernel.org'', ''python.org'', ''mozilla.org'',
      ''freedesktop.org'', ''gnome.org'', ''kde.org'', ''apache.org'', ''debian.org'',
      ''ubuntu.com'', ''fedoraproject.org'', ''archlinux.org'', ''gentoo.org'']"

definition suspicious_tlds :: "string list" where
  "suspicious_tlds = [''.tk'', ''.ml'', ''.ga'', ''.cf'', ''.cc'']"

definition endswith :: "string \<Rightarrow> string \<Rightarrow> bool" where
  "endswith s p = (length p \<le> length s \<and> drop (length s - length p) s = p)"

definition lower_char :: "char \<Rightarrow> char" where
  "lower_char c = (if 65 \<le> code_point c \<and> code_point c \<le> 90 then char_of (code_point c + 32) else c)"

definition insecure_protocol_finding :: "string \<Rightarrow> string \<Rightarrow> SecurityFinding" where
  "insecure_protocol_finding domain url =
     \<lparr>risk_level = MEDIUM, category = ''Insecure Protocol'',
      description = ''Unencrypted HTTP download: '' @ domain,
      location = None,
      recommendation = Some ''Use HTTPS sources when available'',
      matched_content = Some url\<rparr>"

definition unknown_domain_finding :: "string \<Rightarrow> string \<Rightarrow> SecurityFinding" where
  "unknown_domain_finding domain url =
     (let risk_desc =
            (if list_ex (endswith domain) suspicious_tlds
             then (HIGH, ''Download from suspicious domain: '' @ domain)
             else (LOW, ''Download from non-standard domain: '' @ domain))
      in \<lparr>risk_level = fst risk_desc, category = ''Unknown Source Domain'',
          description = snd risk_desc,
          location = None,
          recommendation = Some ''Verify domain reputation and authenticity'',
          matched_content = Some url\<rparr>)"

definition url_parse_error_finding :: "string \<Rightarrow> SecurityFinding" where
  "url_parse_error_finding url =
     \<lparr>risk_level = MEDIUM, category = ''URL Parse Error'',
      description = ''Could not parse URL: '' @ url,
      location = None,
      recommendation = Some ''Verify URL format and accessibility'',
      matched_content = None\<rparr>"

text \<open>
  \<^verbatim>\<open>PKGBUILDAnalyzer._analyze_url\<close>. The library function \<^verbatim>\<open>urllib.parse.urlparse\<close>
  is a parameter: it raises (left injection) or returns the scheme and the network
  location. The domain is the lower-case network location up to its first colon.
\<close>

definition analyze_url ::
  "(string \<Rightarrow> string + string \<times> string) \<Rightarrow> string \<Rightarrow> SecurityFinding list \<Rightarrow> SecurityFinding list" where
  "analyze_url urlparse url findings =
     (case urlparse url of
        Inl e \<Rightarrow> findings @ [url_parse_error_finding url]
      | Inr (scheme, netloc) \<Rightarrow>
          (let domain = map lower_char netloc;
               domain = takeWhile (\<lambda>c. c \<noteq> CHR '':'') domain;
               findings = (if scheme = ''http''
                           then findings @ [insecure_protocol_finding domain url]
                           else findings)
           in if domain \<notin> set TRUSTED_DOMAINS
              then findings @ [unknown_domain_finding domain url]
              else findings))"

text \<open>
  What \<^verbatim>\<open>urlparse\<close> returns on the URLs that \<^verbatim>\<open>_check_source_urls\<close> collects, which
  start with \<^verbatim>\<open>http://\<close> or \<^verbatim>\<open>https://\<close>: the network location ends before the first
  \<^verbatim>\<open>/\<close>, \<^verbatim>\<open>?\<close> or \<^verbatim>\<open>#\<close>, and a network location with a square bracket that has no
  partner raises. Other texts are not URLs of the scanner and are given as a failure.
\<close>

definition netloc_of :: "string \<Rightarrow> string" where
  "netloc_of rest = takeWhile (\<lambda>c. c \<noteq> CHR ''/'' \<and> c \<noteq> CHR ''?'' \<and> c \<noteq> CHR ''#'') rest"

definition urlparse_http :: "string \<Rightarrow> string + string \<times> string" where
  "urlparse_http url =
     (let parsed =
            (if startswith url ''http://'' then Some (''http'', netloc_of (drop 7 url))
             else if startswith url ''https://'' then Some (''https'', netloc_of (drop 8 url))
             else None)
      in case parsed of
           None \<Rightarrow> Inl ''not a URL of the scanner''
         | Some (scheme, netloc) \<Rightarrow>
             if (CHR ''['' \<in> set netloc) \<noteq> (CHR '']'' \<in> set netloc)
             then Inl ''Invalid IPv6 URL''
             else Inr (scheme, netloc))"

text \<open>The top-level suffix of a domain: its text from the last dot on, if it has a dot.\<close>

definition tld_suffix :: "string \<Rightarrow> string option" where
  "tld_suffix domain =
     (if CHR ''.'' \<in> set domain
      then Some (CHR ''.'' # rev (takeWhile (\<lambda>c. c \<noteq> CHR ''.'') (rev domain)))
      else None)"

section \<open>Dependency resolution (pkger.py)\<close>

text \<open>The class \<^verbatim>\<open>[\w.-]\<close> of \<^verbatim>\<open>dep_pattern\<close>.\<close>

definition dep_char :: "char \<Rightarrow> bool" where
  "dep_char c = (is_alnum c \<or> c = CHR ''_'' \<or> c = CHR ''.'' \<or> c = CHR ''-'')"

text \<open>
  \<^verbatim>\<open>[match.group(0) for d in deps if (match := dep_pattern.match(d))]\<close>: the longest
  prefix of each entry in the class, entries without such a prefix dropped.
\<close>

definition dep_names :: "string list \<Rightarrow> string list" where
  "dep_names deps = filter (\<lambda>m. m \<noteq> []) (map (takeWhile dep_char) deps)"

record pkg_info =
  depends :: "string list"
  makedepends :: "string list"

text \<open>
  The world of one resolution: the local database (\<^verbatim>\<open>localdb.get_pkg\<close>), the sync
  databases (\<^verbatim>\<open>_is_in_repos\<close>) and the registry answers of \<^verbatim>\<open>_get_aur_info\<close>, a
  dictionary from names to records.
\<close>

record world =
  local_pkg :: "string \<Rightarrow> bool"
  in_repos :: "string \<Rightarrow> bool"
  aur :: "(string \<times> pkg_info) list"

definition get_aur_info :: "world \<Rightarrow> string \<Rightarrow> pkg_info option" where
  "get_aur_info W pkg = map_of (aur W) pkg"

datatype resolve_error = CircularDependency string | CouldNotResolve string

record rstate =
  order :: "string list"
  visited :: "string set"

text \<open>
  The closure \<^verbatim>\<open>visit\<close> with the loop over the dependencies of one package, and the
  loop over the requested names. The first argument bounds the depth of the recursion:
  at depth 0 nothing is returned (\<open>None\<close>). A raised \<^verbatim>\<open>RuntimeError\<close> is a left
  injection and ends the whole resolution.
\<close>

fun visit :: "nat \<Rightarrow> world \<Rightarrow> rstate \<Rightarrow> string \<Rightarrow> (resolve_error + rstate) option"
  and visit_deps :: "nat \<Rightarrow> world \<Rightarrow> rstate \<Rightarrow> string list \<Rightarrow> (resolve_error + rstate) option"
where
  "visit 0 W st pkg = None"
| "visit (Suc n) W st pkg =
     (if local_pkg W pkg \<or> pkg \<in> set (order st) then Some (Inr st)
      else if pkg \<in> visited st then Some (Inl (CircularDependency pkg))
      else
        (let st1 = st\<lparr>visited := insert pkg (visited st)\<rparr>
         in case get_aur_info W pkg of
              None \<Rightarrow> Some (Inl (CouldNotResolve pkg))
            | Some info \<Rightarrow>
                (case visit_deps n W st1 (dep_names (depends info @ makedepends info)) of
                   None \<Rightarrow> None
                 | Some (Inl e) \<Rightarrow> Some (Inl e)
                 | Some (Inr st2) \<Rightarrow> Some (Inr (st2\<lparr>order := order st2 @ [pkg]\<rparr>)))))"
| "visit_deps n W st [] = Some (Inr st)"
| "visit_deps n W st (dep # deps) =
     (if in_repos W dep then visit_deps n W st deps
      else
        (case visit n W st dep of
           None \<Rightarrow> None
         | Some (Inl e) \<Rightarrow> Some (Inl e)
         | Some (Inr st') \<Rightarrow> visit_deps n W st' deps))"

fun visit_all :: "nat \<Rightarrow> world \<Rightarrow> rstate \<Rightarrow> string list \<Rightarrow> (resolve_error + rstate) option" where
  "visit_all n W st [] = Some (Inr st)"
| "visit_all n W st (name # names) =
     (case visit n W st name of
        None \<Rightarrow> None
      | Some (Inl e) \<Rightarrow> Some (Inl e)
      | Some (Inr st') \<Rightarrow> visit_all n W st' names)"

text \<open>\<^verbatim>\<open>PackageTool._resolve_aur_dependencies\<close>.\<close>

definition resolve_aur_dependencies ::
  "nat \<Rightarrow> world \<Rightarrow> string list \<Rightarrow> (resolve_error + string list) option" where
  "resolve_aur_dependencies n W aur_pkg_names =
     (case visit_all n W \<lparr>order = [], visited = {}\<rparr> aur_pkg_names of
        None \<Rightarrow> None
      | Some (Inl e) \<Rightarrow> Some (Inl e)
      | Some (Inr st) \<Rightarrow> Some (Inr (order st)))"

text \<open>
  The edges the resolver follows: from a package that is not installed locally to each
  declared dependency that is neither in the sync databases nor installed locally.
\<close>

definition dep_edges :: "world \<Rightarrow> (string \<times> string) set" where
  "dep_edges W =
     {(p, d). \<not> local_pkg W p \<and> \<not> local_pkg W d \<and> \<not> in_repos W d \<and>
        (\<exists>info. get_aur_info W p = Some info \<and> d \<in> set (dep_names (depends info @ makedepends info)))}"


text \<open>\<open>d\<close> occurs in \<open>xs\<close> before the first occurrence of \<open>p\<close>.\<close>

definition precedes :: "string list \<Rightarrow> string \<Rightarrow> string \<Rightarrow> bool" where
  "precedes xs d p = (d \<in> set (takeWhile (\<lambda>x. x \<noteq> p) xs))"

subsection \<open>Invariants of the traversal\<close>

text \<open>The packages that are being expanded: marked as visited and not yet in the order.\<close>

definition on_stack :: "rstate \<Rightarrow> string set" where
  "on_stack st = visited st - set (order st)"

text \<open>
  The order so far has no duplicates, holds visited packages only, none of them installed
  locally, and every edge out of a package of the order leads to an earlier package.
\<close>

definition order_inv :: "world \<Rightarrow> rstate \<Rightarrow> bool" where
  "order_inv W st =
     (distinct (order st) \<and> set (order st) \<subseteq> visited st \<and>
      (\<forall>x\<in>set (order st). \<not> local_pkg W x) \<and>
      (\<forall>p\<in>set (order st). \<forall>d. (p, d) \<in> dep_edges W \<longrightarrow> precedes (order st) d p))"

text \<open>
  What a call that returns normally does to the state: the order grows at its end by
  packages that were not visited before, and the packages being expanded are the same.
\<close>

definition extends :: "world \<Rightarrow> rstate \<Rightarrow> rstate \<Rightarrow> bool" where
  "extends W st st' =
     (order_inv W st' \<and> visited st \<subseteq> visited st' \<and>
      (\<exists>zs. order st' = order st @ zs \<and> set zs \<inter> visited st = {}) \<and>
      on_stack st' = on_stack st)"


subsection \<open>Sample inputs\<close>

definition sample_finding :: "RiskLevel \<Rightarrow> SecurityFinding" where
  "sample_finding r =
     \<lparr>risk_level = r, category = ''Sample'', description = ''sample'', location = None,
      recommendation = None, matched_content = None\<rparr>"

text \<open>
  An environment in which every download yields the archive with the given members, the
  tree after extraction is the list of the resolved member paths, and the later analysis
  steps find nothing.
\<close>

definition sample_env :: "tar_member list \<Rightarrow> (unit, string list) scan_env" where
  "sample_env members =
     \<lparr>mkdtemp = (\<lambda>prefix. Inr (''/tmp/'' @ prefix @ ''x'')),
      fetch_url = (\<lambda>url. Inr ()),
      tar_getmembers = (\<lambda>archive. Inr members),
      extractall = (\<lambda>root ms. Inr (map (\<lambda>m. resolve_path (path_join root (member_name m))) ms)),
      path_exists = (\<lambda>fs p. resolve_path p \<in> set fs),
      analyze = (\<lambda>fs p. []),
      check_package_metadata = (\<lambda>n. []),
      analyze_additional_files = (\<lambda>fs p. Inr [])\<rparr>"

definition sample_archive :: "tar_member list" where
  "sample_archive =
     [\<lparr>member_name = ''pkg'', member_size = 0\<rparr>,
      \<lparr>member_name = ''pkg/big.bin'', member_size = 104857601\<rparr>]"




definition plus_world :: world where
  "plus_world =
     \<lparr>local_pkg = (\<lambda>p. False), in_repos = (\<lambda>p. False),
      aur = [(''app'', \<lparr>depends = [''libc++>=1.0''], makedepends = []\<rparr>),
             (''libc++'', \<lparr>depends = [], makedepends = []\<rparr>)]\<rparr>"

text \<open>
  The containment the extraction check is meant to establish, on path components: the
  resolved root is a proper prefix of the resolved path.
\<close>

definition strictly_inside :: "string \<Rightarrow> string \<Rightarrow> bool" where
  "strictly_inside root p =
     (let r = resolve_parts root; q = resolve_parts p
      in length r < length q \<and> take (length r) q = r)"

text \<open>
  The library call \<^verbatim>\<open>tar.extractall(path, filter='data')\<close> on regular files and
  directories, as the documentation of tarfile describes it: the members are written one
  after the other; leading slashes of a name are stripped; a member whose resolved target
  is not inside the destination raises \<^verbatim>\<open>OutsideDestinationError\<close>, a
  \<^verbatim>\<open>TarError\<close>, and the members before it stay written. The result is the list of
  the paths written and the text of the exception, if one is raised.
\<close>

definition inside_destination :: "string \<Rightarrow> string \<Rightarrow> bool" where
  "inside_destination dest name =
     (let d = resolve_parts dest;
          t = resolve_parts (dest @ ''/'' @ dropWhile (\<lambda>c. c = CHR ''/'') name)
      in take (length d) t = d)"

fun extractall_data :: "string \<Rightarrow> tar_member list \<Rightarrow> string list \<Rightarrow> string list \<times> string option" where
  "extractall_data dest [] written = (written, None)"
| "extractall_data dest (member # members) written =
     (let target = resolve_path (dest @ ''/'' @ dropWhile (\<lambda>c. c = CHR ''/'') (member_name member))
      in if \<not> inside_destination dest (member_name member)
         then (written,
               Some ([CHR 0x27] @ member_name member @ [CHR 0x27] @ '' would be extracted to ''
                     @ [CHR 0x27] @ target @ [CHR 0x27] @ '', which is outside the destination''))
         else extractall_data dest members (written @ [target]))"

text \<open>The sample environment with that library call as its extraction.\<close>

definition data_filter_env :: "tar_member list \<Rightarrow> (unit, string list) scan_env" where
  "data_filter_env members =
     (sample_env members)
       \<lparr>extractall :=
          (\<lambda>root ms. case extractall_data root ms [] of
                        (written, None) \<Rightarrow> Inr written
                      | (written, Some e) \<Rightarrow> Inl e)\<rparr>"

text \<open>An archive with a file of the package and a member that names a sibling directory.\<close>

definition traversal_archive :: "tar_member list" where
  "traversal_archive =
     [\<lparr>member_name = ''pkg/good'', member_size = 0\<rparr>,
      \<lparr>member_name = ''../aur-scan-pkg-x-evil/f'', member_size = 0\<rparr>]"

text \<open>
  The domain of a URL: the host of its network location, which starts after the user
  information (up to the last \<^verbatim>\<open>@\<close>) and ends before the colon of the port, in
  lower case.
\<close>

definition url_host :: "string \<Rightarrow> string" where
  "url_host netloc =
     map lower_char
       (takeWhile (\<lambda>c. c \<noteq> CHR '':'') (rev (takeWhile (\<lambda>c. c \<noteq> CHR ''@'') (rev netloc))))"

section \<open>Properties of the security scanner\<close>

subsection \<open>Verdict\<close>

lemma count_risk_simps:
  "count_risk r [] = 0"
  "count_risk r (f # fs) = (if risk_level f = r then Suc (count_risk r fs) else count_risk r fs)"
  "count_risk r (fs @ gs) = count_risk r fs + count_risk r gs"
  by (simp_all add: count_risk_def)

lemma count_risk_pos: "0 < count_risk r fs \<longleftrightarrow> (\<exists>f\<in>set fs. risk_level f = r)"
  by (induction fs) (auto simp: count_risk_simps)

lemma count_risk_filter_low:
  "r \<noteq> LOW \<Longrightarrow> count_risk r (filter (\<lambda>f. risk_level f \<noteq> LOW) fs) = count_risk r fs"
  by (induction fs) (auto simp: count_risk_simps)

text \<open>
  C1. The verdict follows the threshold rule: unsafe with any CRITICAL finding, else unsafe
  with more than 2 HIGH findings, else unsafe with more than 5 MEDIUM findings, else safe.
  A list with 3 HIGH and no CRITICAL findings is unsafe; with 2 HIGH findings, no CRITICAL
  one and the MEDIUM findings within their own threshold it is safe; removing or inserting
  LOW findings never changes the verdict.
\<close>

theorem verdict_threshold_rule:
  "assess_overall_security fs =
     (if \<exists>f\<in>set fs. risk_level f = CRITICAL then False
      else if 2 < count_risk HIGH fs then False
      else if 5 < count_risk MEDIUM fs then False
      else True)
   \<and> ((\<forall>f\<in>set fs. risk_level f \<noteq> CRITICAL) \<and> count_risk HIGH fs = 3
        \<longrightarrow> \<not> assess_overall_security fs)
   \<and> ((\<forall>f\<in>set fs. risk_level f \<noteq> CRITICAL) \<and> count_risk HIGH fs = 2 \<and> count_risk MEDIUM fs \<le> 5
        \<longrightarrow> assess_overall_security fs)
   \<and> assess_overall_security (filter (\<lambda>f. risk_level f \<noteq> LOW) fs) = assess_overall_security fs
   \<and> (risk_level l = LOW
        \<longrightarrow> assess_overall_security (fs @ l # gs) = assess_overall_security (fs @ gs))"
  using count_risk_pos[of CRITICAL fs]
  by (auto simp: assess_overall_security_def Let_def count_risk_filter_low count_risk_simps)

theorem verdict_threshold_rule_witness:
  "\<not> assess_overall_security [sample_finding HIGH, sample_finding HIGH, sample_finding HIGH]
   \<and> assess_overall_security [sample_finding HIGH, sample_finding HIGH]
   \<and> assess_overall_security ([sample_finding HIGH, sample_finding HIGH] @ sample_finding LOW # [])"
  using verdict_threshold_rule
          [of "[sample_finding HIGH, sample_finding HIGH, sample_finding HIGH]" "sample_finding LOW" "[]"]
        verdict_threshold_rule
          [of "[sample_finding HIGH, sample_finding HIGH]" "sample_finding LOW" "[]"]
  by (simp add: sample_finding_def count_risk_simps)

subsection \<open>Package names\<close>

lemma code_point_of_char: "code_point c = of_char c"
  by (simp add: code_point_def)

text \<open>
  C9, as the code has it. A name with a character outside the allowed set is rejected, and
  \<open>scan_package\<close> then returns the unsafe verdict with the single invalid-name finding
  whatever the environment is; the case of a name whose only such character is one final
  line feed is left open here. A non-empty name of allowed characters passes when it has
  at most 255 characters.
\<close>

theorem invalid_name_rejected:
  "((\<exists>c\<in>set name. \<not> name_char c)
      \<and> \<not> (\<exists>body. name = body @ [CHR 0x0A] \<and> list_all name_char body)
      \<longrightarrow> \<not> validate_package_name name
          \<and> scan_package env name = (False, [invalid_name_finding name]))
   \<and> (name \<noteq> [] \<and> list_all name_char name \<and> length name \<le> 255
        \<longrightarrow> validate_package_name name)"
proof (intro conjI impI)
  assume h: "(\<exists>c\<in>set name. \<not> name_char c)
    \<and> \<not> (\<exists>body. name = body @ [CHR 0x0A] \<and> list_all name_char body)"
  have parts: "name = takeWhile name_char name @ dropWhile name_char name" by simp
  have "dropWhile name_char name \<noteq> []" using h by (auto simp: dropWhile_eq_Nil_conv)
  moreover have "dropWhile name_char name \<noteq> [CHR 0x0A]"
  proof
    assume e: "dropWhile name_char name = [CHR 0x0A]"
    have "list_all name_char (takeWhile name_char name)"
      by (auto simp: list_all_iff dest: set_takeWhileD)
    with parts e h show False by metis
  qed
  ultimately show v: "\<not> validate_package_name name"
    by (simp add: validate_package_name_def re_match_name_def)
  then show "scan_package env name = (False, [invalid_name_finding name])"
    by (simp add: scan_package_def)
next
  assume "name \<noteq> [] \<and> list_all name_char name \<and> length name \<le> 255"
  then show "validate_package_name name"
    by (cases name) (simp_all add: validate_package_name_def re_match_name_def list_all_iff)
qed

theorem invalid_name_rejected_witness:
  "\<not> validate_package_name ''ab c''
   \<and> scan_package (sample_env sample_archive) ''ab c'' = (False, [invalid_name_finding ''ab c''])
   \<and> validate_package_name ''libc++''"
proof -
  have bad: "(\<exists>c\<in>set ''ab c''. \<not> name_char c)
      \<and> \<not> (\<exists>body. ''ab c'' = body @ [CHR 0x0A] \<and> list_all name_char body)"
    by (auto simp: name_char_def is_alnum_def code_point_of_char Cons_eq_append_conv)
  have good: "''libc++'' \<noteq> [] \<and> list_all name_char ''libc++'' \<and> length ''libc++'' \<le> 255"
    by (simp add: name_char_def is_alnum_def code_point_of_char)
  show ?thesis
    using bad good invalid_name_rejected [of "''ab c''" "sample_env sample_archive"]
      invalid_name_rejected [of "''libc++''" "sample_env sample_archive"]
    by blast
qed

text \<open>
  A name of 256 letters is not empty and has allowed characters only, and is rejected.
\<close>

theorem long_name_rejected:
  "replicate 256 CHR ''a'' \<noteq> [] \<and> list_all name_char (replicate 256 CHR ''a'')
   \<and> \<not> validate_package_name (replicate 256 CHR ''a'')"
  by (simp add: validate_package_name_def list_all_iff name_char_def is_alnum_def
      code_point_of_char)

subsection \<open>Extraction\<close>

lemmas path_eval =
  member_path_ok_def resolve_path_def resolve_parts_def path_join_def startswith_def
  join_parts_def

text \<open>
  C2, at the archive with the members \<^verbatim>\<open>pkg/good\<close> and
  \<^verbatim>\<open>../aur-scan-pkg-x-evil/f\<close>, in this order, and the extraction root
  \<^verbatim>\<open>/tmp/aur-scan-pkg-x\<close>: the second member resolves to a path in a sibling directory,
  which is not inside the root, and the member loop lets both members pass, because the
  text of the root is a prefix of the text of that path. No path-traversal error is raised
  before the library extracts: it writes the first member, refuses the second, and the
  extraction ends with the invalid-archive error.
\<close>

theorem sibling_prefix_partial_extraction:
  "check_members ''/tmp/aur-scan-pkg-x'' traversal_archive [] = Inr []
   \<and> resolve_path (path_join ''/tmp/aur-scan-pkg-x'' ''../aur-scan-pkg-x-evil/f'')
       = ''/tmp/aur-scan-pkg-x-evil/f''
   \<and> \<not> strictly_inside ''/tmp/aur-scan-pkg-x''
         (path_join ''/tmp/aur-scan-pkg-x'' ''../aur-scan-pkg-x-evil/f'')
   \<and> extractall_data ''/tmp/aur-scan-pkg-x'' traversal_archive []
       = ([''/tmp/aur-scan-pkg-x/pkg/good''],
          Some ([CHR 0x27] @ ''../aur-scan-pkg-x-evil/f'' @ [CHR 0x27] @ '' would be extracted to ''
                @ [CHR 0x27] @ ''/tmp/aur-scan-pkg-x-evil/f'' @ [CHR 0x27]
                @ '', which is outside the destination''))
   \<and> safe_extract_tar (data_filter_env traversal_archive) () ''/tmp/aur-scan-pkg-x''
       = Inl (''Invalid tar archive: '' @ [CHR 0x27] @ ''../aur-scan-pkg-x-evil/f'' @ [CHR 0x27]
              @ '' would be extracted to '' @ [CHR 0x27] @ ''/tmp/aur-scan-pkg-x-evil/f''
              @ [CHR 0x27] @ '', which is outside the destination'')"
  by (simp add: strictly_inside_def path_eval traversal_archive_def inside_destination_def
      safe_extract_tar_def data_filter_env_def sample_env_def Let_def)

lemma check_members_ok:
  "list_all (member_path_ok root) ms \<Longrightarrow>
   check_members root ms lg =
     Inr (lg @ map (\<lambda>m. LargeFileInArchive (member_name m) (member_size m))
                (filter (\<lambda>m. member_size m > 100 * 1024 * 1024) ms))"
  by (induction ms arbitrary: lg) auto

lemma check_members_fail:
  "\<not> list_all (member_path_ok root) ms \<Longrightarrow> \<exists>e. check_members root ms lg = Inl e"
  by (induction ms arbitrary: lg) auto

lemma scan_findings_origin:
  "f \<in> set (snd (scan_package env name)) \<Longrightarrow>
     f = invalid_name_finding name \<or> f = missing_pkgbuild_finding
     \<or> (\<exists>e. f = unexpected_error_finding e) \<or> (\<exists>e. f = scanner_error_finding e)
     \<or> (\<exists>fs p. f \<in> set (analyze env fs p))
     \<or> f \<in> set (check_package_metadata env name)
     \<or> (\<exists>fs p r. analyze_additional_files env fs p = Inr r \<and> f \<in> set r)"
  unfolding scan_package_def Let_def
  by (auto split: if_splits sum.splits prod.splits)

text \<open>
  C5, as the code has it. The size of a member never makes extraction fail: the member loop
  fails exactly when some member fails the path check, and otherwise returns the log with
  one warning for each member above 100 MiB, in order; when the archive opens and the
  library extracts it, \<open>safe_extract_tar\<close> returns that log and the extracted tree.
  Extraction adds no finding: a finding of a scan is one of the four findings that end a
  scan early, or comes from one of the three analysis steps after extraction.
\<close>

theorem oversized_member_logged:
  "(list_all (member_path_ok root) ms \<longrightarrow>
      check_members root ms lg =
        Inr (lg @ map (\<lambda>m. LargeFileInArchive (member_name m) (member_size m))
                   (filter (\<lambda>m. member_size m > 100 * 1024 * 1024) ms)))
   \<and> (\<not> list_all (member_path_ok root) ms \<longrightarrow> (\<exists>e. check_members root ms lg = Inl e))
   \<and> (tar_getmembers env archive = Inr ms \<and> list_all (member_path_ok root) ms
        \<and> extractall env root ms = Inr fs \<longrightarrow>
      safe_extract_tar env archive root =
        Inr (map (\<lambda>m. LargeFileInArchive (member_name m) (member_size m))
                 (filter (\<lambda>m. member_size m > 100 * 1024 * 1024) ms), fs))
   \<and> (f \<in> set (snd (scan_package env name)) \<longrightarrow>
        f = invalid_name_finding name \<or> f = missing_pkgbuild_finding
        \<or> (\<exists>e. f = unexpected_error_finding e) \<or> (\<exists>e. f = scanner_error_finding e)
        \<or> (\<exists>fs p. f \<in> set (analyze env fs p))
        \<or> f \<in> set (check_package_metadata env name)
        \<or> (\<exists>fs p r. analyze_additional_files env fs p = Inr r \<and> f \<in> set r))"
proof (intro conjI impI)
  assume "list_all (member_path_ok root) ms"
  then show "check_members root ms lg =
        Inr (lg @ map (\<lambda>m. LargeFileInArchive (member_name m) (member_size m))
                   (filter (\<lambda>m. member_size m > 100 * 1024 * 1024) ms))"
    by (rule check_members_ok)
next
  assume "\<not> list_all (member_path_ok root) ms"
  then show "\<exists>e. check_members root ms lg = Inl e" by (rule check_members_fail)
next
  assume "tar_getmembers env archive = Inr ms \<and> list_all (member_path_ok root) ms
        \<and> extractall env root ms = Inr fs"
  then show "safe_extract_tar env archive root =
        Inr (map (\<lambda>m. LargeFileInArchive (member_name m) (member_size m))
                 (filter (\<lambda>m. member_size m > 100 * 1024 * 1024) ms), fs)"
    using check_members_ok [of root ms "[]"] by (simp add: safe_extract_tar_def)
next
  assume "f \<in> set (snd (scan_package env name))"
  then show "f = invalid_name_finding name \<or> f = missing_pkgbuild_finding
        \<or> (\<exists>e. f = unexpected_error_finding e) \<or> (\<exists>e. f = scanner_error_finding e)
        \<or> (\<exists>fs p. f \<in> set (analyze env fs p))
        \<or> f \<in> set (check_package_metadata env name)
        \<or> (\<exists>fs p r. analyze_additional_files env fs p = Inr r \<and> f \<in> set r)"
    by (rule scan_findings_origin)
qed

theorem oversized_member_logged_witness:
  "check_members ''/tmp/aur-scan-pkg-x'' sample_archive []
     = Inr [LargeFileInArchive ''pkg/big.bin'' 104857601]
   \<and> safe_extract_tar (sample_env sample_archive) () ''/tmp/aur-scan-pkg-x''
       = Inr ([LargeFileInArchive ''pkg/big.bin'' 104857601],
              [''/tmp/aur-scan-pkg-x/pkg'', ''/tmp/aur-scan-pkg-x/pkg/big.bin''])"
proof -
  have ok: "list_all (member_path_ok ''/tmp/aur-scan-pkg-x'') sample_archive"
    by (simp add: sample_archive_def path_eval)
  have env: "tar_getmembers (sample_env sample_archive) () = Inr sample_archive
    \<and> extractall (sample_env sample_archive) ''/tmp/aur-scan-pkg-x'' sample_archive
        = Inr [''/tmp/aur-scan-pkg-x/pkg'', ''/tmp/aur-scan-pkg-x/pkg/big.bin'']"
    by (simp add: sample_env_def sample_archive_def path_eval)
  show ?thesis
    using ok env
      oversized_member_logged [of "''/tmp/aur-scan-pkg-x''" sample_archive "[]"
        "sample_env sample_archive" "()"
        "[''/tmp/aur-scan-pkg-x/pkg'', ''/tmp/aur-scan-pkg-x/pkg/big.bin'']"
        missing_pkgbuild_finding "''pkg''"]
    by (simp add: sample_archive_def)
qed

text \<open>
  An archive with a member of 100 MiB and one byte, in a package without a PKGBUILD file:
  extraction succeeds and logs the member, and the findings of the scan are the missing
  PKGBUILD finding alone.
\<close>

theorem oversized_member_no_finding:
  "safe_extract_tar (sample_env sample_archive) () ''/tmp/aur-scan-pkg-x''
     = Inr ([LargeFileInArchive ''pkg/big.bin'' 104857601],
            [''/tmp/aur-scan-pkg-x/pkg'', ''/tmp/aur-scan-pkg-x/pkg/big.bin''])
   \<and> scan_package (sample_env sample_archive) ''pkg'' = (False, [missing_pkgbuild_finding])"
  by (simp add: safe_extract_tar_def sample_env_def sample_archive_def path_eval
      scan_package_def validate_package_name_def re_match_name_def name_char_def is_alnum_def
      code_point_of_char download_and_extract_package_def Let_def)

subsection \<open>Missing PKGBUILD\<close>

lemma download_ignores_analysis:
  "download_and_extract_package
     (env\<lparr>analyze := a, check_package_metadata := m, analyze_additional_files := f\<rparr>) t n
     = download_and_extract_package env t n"
  by (simp add: download_and_extract_package_def safe_extract_tar_def Let_def
      split: sum.splits prod.splits)

text \<open>
  C10. When the name is valid, the package was downloaded and extracted, and the package
  directory has no entry PKGBUILD, \<open>scan_package\<close> returns the unsafe verdict with the
  CRITICAL missing-PKGBUILD finding as its only finding, whatever the three analysis steps
  would have returned.
\<close>

theorem missing_pkgbuild_unsafe:
  "validate_package_name name \<Longrightarrow>
   mkdtemp env (''aur-scan-'' @ name @ ''-'') = Inr temp_dir \<Longrightarrow>
   download_and_extract_package env temp_dir name = Inr (lg, fs, package_dir) \<Longrightarrow>
   \<not> path_exists env fs (path_join package_dir ''PKGBUILD'') \<Longrightarrow>
   scan_package
       (env\<lparr>analyze := a, check_package_metadata := m, analyze_additional_files := f\<rparr>) name
     = (False, [missing_pkgbuild_finding])
   \<and> risk_level missing_pkgbuild_finding = CRITICAL
   \<and> category missing_pkgbuild_finding = ''Missing PKGBUILD''"
  by (simp add: scan_package_def download_ignores_analysis missing_pkgbuild_finding_def)

theorem missing_pkgbuild_unsafe_witness:
  "scan_package
       ((sample_env sample_archive)
          \<lparr>analyze := (\<lambda>fs p. [sample_finding LOW]),
           check_package_metadata := (\<lambda>n. [sample_finding LOW]),
           analyze_additional_files := (\<lambda>fs p. Inr [sample_finding LOW])\<rparr>) ''pkg''
     = (False, [missing_pkgbuild_finding])"
proof -
  have v: "validate_package_name ''pkg''"
    by (simp add: validate_package_name_def re_match_name_def name_char_def is_alnum_def
        code_point_of_char)
  have t: "mkdtemp (sample_env sample_archive) (''aur-scan-'' @ ''pkg'' @ ''-'')
      = Inr ''/tmp/aur-scan-pkg-x''"
    by (simp add: sample_env_def)
  have d: "download_and_extract_package (sample_env sample_archive) ''/tmp/aur-scan-pkg-x'' ''pkg''
      = Inr ([LargeFileInArchive ''pkg/big.bin'' 104857601],
             [''/tmp/aur-scan-pkg-x/pkg'', ''/tmp/aur-scan-pkg-x/pkg/big.bin''],
             ''/tmp/aur-scan-pkg-x/pkg'')"
    by (simp add: download_and_extract_package_def safe_extract_tar_def sample_env_def
        sample_archive_def path_eval Let_def)
  have e: "\<not> path_exists (sample_env sample_archive)
      [''/tmp/aur-scan-pkg-x/pkg'', ''/tmp/aur-scan-pkg-x/pkg/big.bin'']
      (path_join ''/tmp/aur-scan-pkg-x/pkg'' ''PKGBUILD'')"
    by (simp add: sample_env_def path_eval)
  show ?thesis
    using missing_pkgbuild_unsafe [OF v t d e] by simp
qed

subsection \<open>Integrity check\<close>

lemma line_suffixes_append: "t \<in> set (line_suffixes (xs @ CHR 0x0A # t))"
  by (induction xs) auto

lemma is_space_eval: "is_space c = ((9 \<le> (of_char c :: nat) \<and> (of_char c :: nat) \<le> 13) \<or> (28 \<le> (of_char c :: nat) \<and> (of_char c :: nat) \<le> 32))"
  by (simp add: is_space_def code_point_def)

lemmas field_eval = re_search_field_def field_at_def startswith_def is_space_eval

lemma strong_field_added:
  "re_search_field ''sha256sums'' (content @ CHR 0x0A # ''sha256sums='' @ rest)"
proof -
  have "field_at ''sha256sums'' (''sha256sums='' @ rest)"
    by (simp add: field_at_def startswith_def is_space_eval)
  then show ?thesis
    using line_suffixes_append[of "''sha256sums='' @ rest" content]
    by (auto simp: re_search_field_def list_ex_iff)
qed

lemma check_integrity_cases:
  "check_integrity_verification content fs =
     fs @ (if \<forall>f\<in>set checksum_fields. \<not> re_search_field f content then [no_integrity_finding]
           else if re_search_field ''md5sums'' content \<or> re_search_field ''sha1sums'' content
           then [weak_hash_finding
                   (filter (\<lambda>h. re_search_field h content) [''md5sums'', ''sha1sums''])]
           else [])"
  by (auto simp: check_integrity_verification_def checksum_fields_def Let_def)

lemma integrity_none:
  "(\<forall>f\<in>set checksum_fields. \<not> re_search_field f content)
      \<Longrightarrow> check_integrity_verification content fs = fs @ [no_integrity_finding]"
  by (simp add: check_integrity_cases)

lemma integrity_present:
  assumes "\<exists>f\<in>set checksum_fields. re_search_field f c"
  shows "check_integrity_verification c fs =
     fs @ (if re_search_field ''md5sums'' c \<or> re_search_field ''sha1sums'' c
           then [weak_hash_finding (filter (\<lambda>h. re_search_field h c) [''md5sums'', ''sha1sums''])]
           else [])"
proof -
  from assms have "\<not> (\<forall>f\<in>set checksum_fields. \<not> re_search_field f c)" by blast
  then show ?thesis unfolding check_integrity_cases by (simp only: if_False)
qed

lemma integrity_some:
  "(\<exists>f\<in>set checksum_fields. re_search_field f c)
      \<Longrightarrow> (\<forall>g\<in>set (drop (length fs) (check_integrity_verification c fs)).
            category g \<noteq> ''No Integrity Verification'' \<and> risk_level g \<noteq> HIGH)"
  by (simp add: integrity_present weak_hash_finding_def)

lemma integrity_weak:
  assumes "re_search_field ''md5sums'' content \<or> re_search_field ''sha1sums'' content"
  shows "\<exists>weak. weak \<noteq> [] \<and> set weak \<subseteq> {''md5sums'', ''sha1sums''} \<and>
             check_integrity_verification content fs = fs @ [weak_hash_finding weak]"
proof -
  let ?w = "filter (\<lambda>h. re_search_field h content) [''md5sums'', ''sha1sums'']"
  have 1: "?w \<noteq> []" using assms by (auto simp: filter_empty_conv)
  have 2: "set ?w \<subseteq> {''md5sums'', ''sha1sums''}" by auto
  have "\<exists>f\<in>set checksum_fields. re_search_field f content"
    using assms by (auto simp: checksum_fields_def)
  from integrity_present[OF this] assms
  have 3: "check_integrity_verification content fs = fs @ [weak_hash_finding ?w]"
    by (simp only: if_True)
  from 1 2 3 show ?thesis by blast
qed

text \<open>
  C7. For every manifest text: when the pattern of none of the four checksum fields matches,
  the check appends the HIGH no-integrity-verification finding; when one matches, the check
  appends no finding of that category and no HIGH finding; when md5sums or sha1sums is
  present and neither sha256sums nor sha512sums, it appends the MEDIUM weak-hash finding;
  and a manifest followed by a line \<^verbatim>\<open>sha256sums=...\<close> gets no no-integrity finding.
\<close>

theorem integrity_findings:
  "((\<forall>f\<in>set checksum_fields. \<not> re_search_field f content)
      \<longrightarrow> check_integrity_verification content fs = fs @ [no_integrity_finding])
   \<and> ((\<exists>f\<in>set checksum_fields. re_search_field f content)
      \<longrightarrow> (\<forall>g\<in>set (drop (length fs) (check_integrity_verification content fs)).
            category g \<noteq> ''No Integrity Verification'' \<and> risk_level g \<noteq> HIGH))
   \<and> ((re_search_field ''md5sums'' content \<or> re_search_field ''sha1sums'' content)
        \<and> \<not> re_search_field ''sha256sums'' content \<and> \<not> re_search_field ''sha512sums'' content
      \<longrightarrow> (\<exists>weak. weak \<noteq> [] \<and> set weak \<subseteq> {''md5sums'', ''sha1sums''} \<and>
             check_integrity_verification content fs = fs @ [weak_hash_finding weak]))
   \<and> (\<forall>g\<in>set (drop (length fs)
         (check_integrity_verification (content @ CHR 0x0A # ''sha256sums='' @ rest) fs)).
         category g \<noteq> ''No Integrity Verification'')
   \<and> risk_level no_integrity_finding = HIGH
   \<and> category no_integrity_finding = ''No Integrity Verification''
   \<and> risk_level (weak_hash_finding weak) = MEDIUM
   \<and> category (weak_hash_finding weak) = ''Weak Hash Algorithm''"
proof (intro conjI impI)
  show "risk_level no_integrity_finding = HIGH"
    "category no_integrity_finding = ''No Integrity Verification''"
    by (simp_all add: no_integrity_finding_def)
  show "risk_level (weak_hash_finding weak) = MEDIUM"
    "category (weak_hash_finding weak) = ''Weak Hash Algorithm''"
    by (simp_all add: weak_hash_finding_def)
next
  assume "\<forall>f\<in>set checksum_fields. \<not> re_search_field f content"
  then show "check_integrity_verification content fs = fs @ [no_integrity_finding]"
    by (rule integrity_none)
next
  assume "\<exists>f\<in>set checksum_fields. re_search_field f content"
  then show "\<forall>g\<in>set (drop (length fs) (check_integrity_verification content fs)).
            category g \<noteq> ''No Integrity Verification'' \<and> risk_level g \<noteq> HIGH"
    by (rule integrity_some)
next
  assume "(re_search_field ''md5sums'' content \<or> re_search_field ''sha1sums'' content)
        \<and> \<not> re_search_field ''sha256sums'' content \<and> \<not> re_search_field ''sha512sums'' content"
  then have "re_search_field ''md5sums'' content \<or> re_search_field ''sha1sums'' content" by blast
  then show "\<exists>weak. weak \<noteq> [] \<and> set weak \<subseteq> {''md5sums'', ''sha1sums''} \<and>
             check_integrity_verification content fs = fs @ [weak_hash_finding weak]"
    by (rule integrity_weak)
next
  have "''sha256sums'' \<in> set checksum_fields" by (simp add: checksum_fields_def)
  then have "\<exists>f\<in>set checksum_fields.
      re_search_field f (content @ CHR 0x0A # ''sha256sums='' @ rest)"
    using strong_field_added[of content rest] by blast
  from integrity_some[OF this]
  show "\<forall>g\<in>set (drop (length fs)
         (check_integrity_verification (content @ CHR 0x0A # ''sha256sums='' @ rest) fs)).
         category g \<noteq> ''No Integrity Verification''" by blast
qed

theorem integrity_findings_witness:
  "\<not> re_search_field ''md5sums'' ''pkgname=x'' \<and> \<not> re_search_field ''sha1sums'' ''pkgname=x''
   \<and> \<not> re_search_field ''sha256sums'' ''pkgname=x''
   \<and> \<not> re_search_field ''sha512sums'' ''pkgname=x''
   \<and> check_integrity_verification ''pkgname=x'' [] = [no_integrity_finding]
   \<and> re_search_field ''md5sums'' ''md5sums=(abc)''
   \<and> \<not> re_search_field ''sha256sums'' ''md5sums=(abc)''
   \<and> \<not> re_search_field ''sha512sums'' ''md5sums=(abc)''
   \<and> check_integrity_verification ''md5sums=(abc)'' [] = [weak_hash_finding [''md5sums'']]"
proof -
  have h1: "\<forall>f\<in>set checksum_fields. \<not> re_search_field f ''pkgname=x''"
    by (simp add: checksum_fields_def field_eval)
  have h2: "re_search_field ''md5sums'' ''md5sums=(abc)''
      \<and> \<not> re_search_field ''sha256sums'' ''md5sums=(abc)''
      \<and> \<not> re_search_field ''sha512sums'' ''md5sums=(abc)''"
    by (simp add: field_eval)
  from integrity_findings[of "''pkgname=x''" "[]"] h1
  have "check_integrity_verification ''pkgname=x'' [] = [] @ [no_integrity_finding]" by blast
  then have r1: "check_integrity_verification ''pkgname=x'' [] = [no_integrity_finding]" by simp
  from integrity_findings[of "''md5sums=(abc)''" "[]"] h2
  have r2: "\<exists>weak. weak \<noteq> [] \<and> set weak \<subseteq> {''md5sums'', ''sha1sums''} \<and>
      check_integrity_verification ''md5sums=(abc)'' [] = [] @ [weak_hash_finding weak]" by blast
  have ev: "check_integrity_verification ''md5sums=(abc)'' [] = [weak_hash_finding [''md5sums'']]"
    by (simp add: check_integrity_verification_def checksum_fields_def field_eval)
  from h1 have h1': "\<not> re_search_field ''md5sums'' ''pkgname=x''
      \<and> \<not> re_search_field ''sha1sums'' ''pkgname=x''
      \<and> \<not> re_search_field ''sha256sums'' ''pkgname=x''
      \<and> \<not> re_search_field ''sha512sums'' ''pkgname=x''"
    by (simp add: checksum_fields_def)
  from h1' r1 h2 r2 ev show ?thesis by blast
qed

subsection \<open>Source URLs\<close>

lemma endswith_rev: "endswith s p \<longleftrightarrow> take (length p) (rev s) = rev p"
proof
  assume "endswith s p"
  then show "take (length p) (rev s) = rev p"
    by (simp add: endswith_def take_rev)
next
  assume h: "take (length p) (rev s) = rev p"
  then have e: "rev (drop (length s - length p) s) = rev p" by (simp add: take_rev)
  then have d: "drop (length s - length p) s = p" by simp
  then have "length (drop (length s - length p) s) = length p" by simp
  then have "length p \<le> length s" by simp
  with d show "endswith s p" by (simp add: endswith_def)
qed

lemma tld_rev:
  assumes "a \<noteq> CHR ''.''" "b \<noteq> CHR ''.''"
  shows "take 3 r = [b, a, CHR ''.''] \<longleftrightarrow>
         (CHR ''.'' \<in> set r \<and> takeWhile (\<lambda>c. c \<noteq> CHR ''.'') r = [b, a])"
proof (cases r)
  case Nil
  then show ?thesis by simp
next
  case c1: (Cons x1 r1)
  show ?thesis
  proof (cases r1)
    case Nil
    with c1 show ?thesis by auto
  next
    case c2: (Cons x2 r2)
    show ?thesis
    proof (cases r2)
      case Nil
      with c1 c2 assms show ?thesis by auto
    next
      case c3: (Cons x3 r3)
      with c1 c2 assms show ?thesis by (auto simp: numeral_3_eq_3 split: if_splits)
    qed
  qed
qed

lemma endswith_tld:
  assumes "a \<noteq> CHR ''.''" "b \<noteq> CHR ''.''"
  shows "endswith domain [CHR ''.'', a, b] \<longleftrightarrow> tld_suffix domain = Some [CHR ''.'', a, b]"
proof -
  have "endswith domain [CHR ''.'', a, b] \<longleftrightarrow> take 3 (rev domain) = [b, a, CHR ''.'']"
    by (simp add: endswith_rev numeral_3_eq_3)
  also have "\<dots> \<longleftrightarrow> (CHR ''.'' \<in> set (rev domain) \<and> takeWhile (\<lambda>c. c \<noteq> CHR ''.'') (rev domain) = [b, a])"
    by (rule tld_rev[OF assms])
  also have "\<dots> \<longleftrightarrow> tld_suffix domain = Some [CHR ''.'', a, b]"
    by (auto simp: tld_suffix_def rev_swap)
  finally show ?thesis .
qed

lemma suspicious_iff:
  "list_ex (endswith domain) suspicious_tlds \<longleftrightarrow> (\<exists>t\<in>set suspicious_tlds. tld_suffix domain = Some t)"
  by (simp add: suspicious_tlds_def endswith_tld)

lemma analyze_url_parsed:
  "urlparse url = Inr (scheme, netloc) \<Longrightarrow>
   analyze_url urlparse url fs =
     fs @ (if scheme = ''http''
           then [insecure_protocol_finding (takeWhile (\<lambda>c. c \<noteq> CHR '':'') (map lower_char netloc)) url]
           else [])
        @ (if takeWhile (\<lambda>c. c \<noteq> CHR '':'') (map lower_char netloc) \<notin> set TRUSTED_DOMAINS
           then [unknown_domain_finding (takeWhile (\<lambda>c. c \<noteq> CHR '':'') (map lower_char netloc)) url]
           else [])"
  by (simp add: analyze_url_def Let_def)

lemma unknown_domain_risk:
  "risk_level (unknown_domain_finding domain url) =
     (if \<exists>t\<in>set suspicious_tlds. tld_suffix domain = Some t then HIGH else LOW)"
  by (simp add: unknown_domain_finding_def Let_def suspicious_iff)

text \<open>
  C8, at the URL \<^verbatim>\<open>https://github.com:x@evil.tk/f.tar.gz\<close>: its network location is
  \<^verbatim>\<open>github.com:x@evil.tk\<close>, so its domain is \<^verbatim>\<open>evil.tk\<close>, which is not in the
  trusted list and has a suspicious top-level suffix; the code takes the text before the
  first colon, \<^verbatim>\<open>github.com\<close>, for the domain and adds no finding.
\<close>

theorem userinfo_hides_domain:
  "urlparse_http ''https://github.com:x@evil.tk/f.tar.gz'' = Inr (''https'', ''github.com:x@evil.tk'')
   \<and> url_host ''github.com:x@evil.tk'' = ''evil.tk''
   \<and> ''evil.tk'' \<notin> set TRUSTED_DOMAINS
   \<and> tld_suffix ''evil.tk'' = Some ''.tk''
   \<and> ''.tk'' \<in> set suspicious_tlds
   \<and> takeWhile (\<lambda>c. c \<noteq> CHR '':'') (map lower_char ''github.com:x@evil.tk'') = ''github.com''
   \<and> analyze_url urlparse_http ''https://github.com:x@evil.tk/f.tar.gz'' [] = []"
  by (simp add: urlparse_http_def startswith_def netloc_of_def url_host_def lower_char_def
      code_point_def TRUSTED_DOMAINS_def tld_suffix_def suspicious_tlds_def analyze_url_def)

section \<open>Properties of the dependency resolver\<close>

subsection \<open>Order of the list\<close>












subsection \<open>What a normal return establishes\<close>


subsection \<open>Every call returns\<close>

lemma extends_visited: "extends W st st' \<Longrightarrow> visited st \<subseteq> visited st'"
  by (simp add: extends_def)








subsection \<open>Which errors can be raised\<close>



subsection \<open>The loop over the requested names\<close>













lemmas dep_eval = dep_edges_def get_aur_info_def dep_names_def dep_char_def is_alnum_def
  code_point_of_char




subsection \<open>Resolution\<close>





text \<open>
  C6, at the dependency spec \<^verbatim>\<open>libc++>=1.0\<close>: the pattern stops at the first
  \<^verbatim>\<open>+\<close>, so the name it yields is \<^verbatim>\<open>libc\<close>, although \<^verbatim>\<open>libc++\<close> is a name of
  allowed characters; with a registry that knows \<^verbatim>\<open>libc++\<close>, the resolver looks up
  \<^verbatim>\<open>libc\<close> and fails.
\<close>

theorem dep_pattern_drops_plus:
  "dep_names [''libc++>=1.0''] = [''libc'']
   \<and> list_all name_char ''libc++''
   \<and> resolve_aur_dependencies 3 plus_world [''app''] = Some (Inl (CouldNotResolve ''libc''))"
  by (simp add: dep_eval name_char_def resolve_aur_dependencies_def numeral_3_eq_3
      plus_world_def)

end
